theory Spec2Isabelle
  imports Main
begin

section \<open>JavaScript values used by the handlers\<close>

text \<open>
  The repository is a set of serverless JavaScript handlers. The chat endpoint
  (the second module of \<^verbatim>\<open>src/api/conversations.js\<close>) resolves a question from the
  answer cache or from the completion provider, meters anonymous usage with the
  \<^verbatim>\<open>q_used\<close> cookie and records the exchange for identified users. The
  conversations endpoint (\<^verbatim>\<open>src/unnamed/part_000\<close>) stores anonymous messages
  under a new session.

  Strings are lists of characters; \<open>length\<close>, \<open>take\<close> and \<open>@\<close> stand for
  \<^verbatim>\<open>.length\<close>, \<^verbatim>\<open>.substring(0, n)\<close> and \<^verbatim>\<open>+\<close>. A JavaScript number that
  the handler computes with is either \<^verbatim>\<open>NaN\<close> or an integer; the model keeps
  integers exact (doubles are exact up to \<open>2 ^ 53\<close>).
\<close>

datatype jsnum = NaN | Num int

datatype 'a outcome = Throws | Returns 'a

datatype json = JBool bool | JNum jsnum | JStr string

definition js_add :: "jsnum \<Rightarrow> jsnum \<Rightarrow> jsnum" where
  "js_add a b = (case a of NaN \<Rightarrow> NaN | Num x \<Rightarrow> (case b of NaN \<Rightarrow> NaN | Num y \<Rightarrow> Num (x + y)))"

definition js_sub :: "jsnum \<Rightarrow> jsnum \<Rightarrow> jsnum" where
  "js_sub a b = (case a of NaN \<Rightarrow> NaN | Num x \<Rightarrow> (case b of NaN \<Rightarrow> NaN | Num y \<Rightarrow> Num (x - y)))"

text \<open>\<^verbatim>\<open>Math.max(a, b)\<close>: \<^verbatim>\<open>NaN\<close> as soon as one argument is.\<close>

definition js_max :: "jsnum \<Rightarrow> jsnum \<Rightarrow> jsnum" where
  "js_max a b = (case a of NaN \<Rightarrow> NaN | Num x \<Rightarrow> (case b of NaN \<Rightarrow> NaN | Num y \<Rightarrow> Num (max x y)))"

text \<open>\<^verbatim>\<open>a >= b\<close>: false as soon as one side is \<^verbatim>\<open>NaN\<close>.\<close>

definition js_ge :: "jsnum \<Rightarrow> jsnum \<Rightarrow> bool" where
  "js_ge a b = (case a of NaN \<Rightarrow> False | Num x \<Rightarrow> (case b of NaN \<Rightarrow> False | Num y \<Rightarrow> y \<le> x))"

text \<open>
  Truthiness of a value that is a string or \<^verbatim>\<open>undefined\<close> (\<open>None\<close>): only a
  non-empty string is truthy. \<open>or_else v d\<close> is \<^verbatim>\<open>v || d\<close>.
\<close>

definition truthy :: "string option \<Rightarrow> bool" where
  "truthy v = (case v of None \<Rightarrow> False | Some s \<Rightarrow> s \<noteq> [])"

definition or_else :: "string option \<Rightarrow> string \<Rightarrow> string" where
  "or_else v d = (case v of None \<Rightarrow> d | Some s \<Rightarrow> if s = [] then d else s)"

text \<open>
  White space and line terminators of JavaScript within the Latin-1 range:
  TAB, LF, VT, FF, CR, SP and NBSP. \<^verbatim>\<open>String.prototype.trim\<close> strips them at
  both ends; \<^verbatim>\<open>parseInt\<close> skips them at the start.
\<close>

definition js_space :: "char \<Rightarrow> bool" where
  "js_space c = (c \<in> set [CHR 0x09, CHR 0x0A, CHR 0x0B, CHR 0x0C, CHR 0x0D, CHR 0x20, CHR 0xA0])"

definition js_trim :: "string \<Rightarrow> string" where
  "js_trim s = rev (dropWhile js_space (rev (dropWhile js_space s)))"

text \<open>
  \<^verbatim>\<open>parseInt(s)\<close> with no radix: leading white space is skipped, an optional
  sign is read, a \<^verbatim>\<open>0x\<close>/\<^verbatim>\<open>0X\<close> prefix selects radix 16 (radix 10 otherwise), and
  the longest prefix of digits of that radix is the value; no digit at all gives
  \<^verbatim>\<open>NaN\<close>.
\<close>

definition digit_of :: "nat \<Rightarrow> char \<Rightarrow> nat option" where
  "digit_of radix c =
     (let n = (of_char c :: nat);
          v = (if 48 \<le> n \<and> n \<le> 57 then Some (n - 48)
               else if 97 \<le> n \<and> n \<le> 122 then Some (n - 87)
               else if 65 \<le> n \<and> n \<le> 90 then Some (n - 55)
               else None)
      in case v of None \<Rightarrow> None | Some d \<Rightarrow> if d < radix then Some d else None)"

fun digits_prefix :: "nat \<Rightarrow> string \<Rightarrow> nat list" where
  "digits_prefix radix [] = []"
| "digits_prefix radix (c # cs) =
     (case digit_of radix c of None \<Rightarrow> [] | Some d \<Rightarrow> d # digits_prefix radix cs)"

definition js_parseInt :: "string \<Rightarrow> jsnum" where
  "js_parseInt s =
     (let t = dropWhile js_space s;
          neg = (case t of [] \<Rightarrow> False | c # _ \<Rightarrow> c = CHR ''-'');
          u = (case t of [] \<Rightarrow> [] | c # cs \<Rightarrow> if c = CHR ''-'' \<or> c = CHR ''+'' then cs else t);
          hex = (case u of a # b # _ \<Rightarrow> a = CHR ''0'' \<and> (b = CHR ''x'' \<or> b = CHR ''X'') | _ \<Rightarrow> False);
          radix = (if hex then 16 else 10);
          ds = digits_prefix radix (if hex then drop 2 u else u);
          v = int (foldl (\<lambda>a d. a * radix + d) 0 ds)
      in if ds = [] then NaN else Num (if neg then - v else v))"

text \<open>\<^verbatim>\<open>n.toString()\<close> of an integer or of \<^verbatim>\<open>NaN\<close>, in decimal.\<close>

definition digit_char :: "nat \<Rightarrow> char" where
  "digit_char d = ''0123456789'' ! (d mod 10)"

function decimal :: "nat \<Rightarrow> string \<Rightarrow> string" where
  "decimal n acc =
     (if n < 10 then digit_char n # acc else decimal (n div 10) (digit_char n # acc))"
  by pat_completeness auto
termination
  by (relation "measure fst") auto

definition js_toString :: "jsnum \<Rightarrow> string" where
  "js_toString a =
     (case a of
        NaN \<Rightarrow> ''NaN''
      | Num x \<Rightarrow> if x < 0 then CHR ''-'' # decimal (nat (- x)) [] else decimal (nat x) [])"

section \<open>Requests, responses and the external collaborators\<close>

text \<open>
  \<open>req_cookies\<close> is the result of \<^verbatim>\<open>parseCookies(req.headers.cookie || '')\<close>
  (\<^verbatim>\<open>lib/utils.js\<close>), an object from cookie names to values. \<open>req_body\<close> is
  \<open>None\<close> when the request has no parsed body; \<open>message\<close> and \<open>sessionId\<close> are
  \<open>None\<close> when the field is absent.
\<close>

record body =
  message :: "string option"
  sessionId :: "int option"

record request =
  req_method :: string
  req_body :: "body option"
  req_cookies :: "string \<rightharpoonup> string"

record user =
  user_id :: int

datatype limiter = chatRateLimiter | chatRateLimiterRegistered

text \<open>The decision of \<^verbatim>\<open>checkRateLimit\<close> (\<^verbatim>\<open>lib/ratelimit.js\<close>).\<close>

record rateLimit =
  rl_success :: bool
  rl_limit :: nat
  rl_remaining :: nat
  rl_reset :: nat

text \<open>The result of \<^verbatim>\<open>createCookie(name, value, {maxAge})\<close> (\<^verbatim>\<open>lib/utils.js\<close>).\<close>

record cookie =
  cookie_name :: string
  cookie_value :: string
  cookie_maxAge :: nat

definition createCookie :: "string \<Rightarrow> string \<Rightarrow> nat \<Rightarrow> cookie" where
  "createCookie n v a = \<lparr>cookie_name = n, cookie_value = v, cookie_maxAge = a\<rparr>"

text \<open>
  A response: the status, the JSON object sent (its fields in order), the
  rate-limit usage headers when they were attached to it, and the
  \<^verbatim>\<open>Set-Cookie\<close> header when one was set. CORS headers are not modelled.
\<close>

record response =
  status :: nat
  json :: "(string \<times> json) list"
  ratelimit_headers :: "rateLimit option"
  set_cookie :: "cookie option"

text \<open>The completion provider's reply to \<^verbatim>\<open>fetch\<close>, as far as the handler reads it.\<close>

record openai_data =
  choices :: "string option list option"
  total_tokens :: "nat option"

record fetch_response =
  ok :: bool
  http_status :: nat
  statusText :: string
  json_body :: "openai_data outcome"

text \<open>
  \<open>choices\<close> is \<open>None\<close> when \<^verbatim>\<open>openaiData.choices\<close> is not an array (indexing it
  throws); an element is the \<^verbatim>\<open>?.message?.content\<close> of that choice, \<open>None\<close> when
  missing. \<open>total_tokens\<close> is \<^verbatim>\<open>usage?.total_tokens\<close>.
\<close>

text \<open>The calls the handlers make to their collaborators, in order.\<close>

datatype event =
    FindUserByEmail string
  | CheckRateLimit limiter string
  | GetCachedAnswer string
  | Fetch string
  | SaveCachedAnswer string string
  | CreateConversationSession int string
  | AddConversationMessage int string string

text \<open>
  What the collaborators answer during one request. \<open>store_error\<close> tells which
  store calls reject (the database is unreachable, say); \<open>elapsed\<close> is
  \<^verbatim>\<open>Date.now() - startTime\<close>.
\<close>

record env =
  handleCorsPreflight :: bool
  findUserByEmail :: "string \<Rightarrow> user option outcome"
  getClientIp :: string
  checkRateLimit :: "limiter \<Rightarrow> string \<Rightarrow> rateLimit outcome"
  OPENAI_API_KEY :: "string option"
  fetch :: "string \<Rightarrow> fetch_response outcome"
  store_error :: "event \<Rightarrow> bool"
  elapsed :: nat

section \<open>The stores\<close>

record cached_answer =
  answer :: string
  hitCount :: nat

record session =
  session_id :: int
  owner :: int
  title :: string
  message_count :: nat

record conversation_message =
  msg_session :: int
  msg_role :: string
  msg_content :: string
  tokensUsed :: nat
  responseTimeMs :: "nat option"
  wasCached :: bool

record world =
  cache :: "string \<rightharpoonup> cached_answer"
  sessions :: "session list"
  messages :: "conversation_message list"
  next_session_id :: int
  calls :: "event list"

definition called :: "event \<Rightarrow> world \<Rightarrow> world" where
  "called e w = w\<lparr>calls := calls w @ [e]\<rparr>"

subsection \<open>Answer cache\<close>

text \<open>
  Modelled from the spec: the case folding of the cache key (\<^verbatim>\<open>lib/db.js\<close> is
  not part of the sources), on the letters A to Z.
\<close>

definition to_lower :: "char \<Rightarrow> char" where
  "to_lower c =
     (case map_of (zip ''ABCDEFGHIJKLMNOPQRSTUVWXYZ'' ''abcdefghijklmnopqrstuvwxyz'') c of
        None \<Rightarrow> c
      | Some l \<Rightarrow> l)"

text \<open>
  Modelled from the spec: the key normalization of the answer cache
  (\<^verbatim>\<open>lib/db.js\<close> is not part of the sources): trim, then case-fold.
\<close>

definition normalize :: "string \<Rightarrow> string" where
  "normalize q = map to_lower (js_trim q)"

text \<open>
  Modelled from the spec: \<^verbatim>\<open>getCachedAnswer\<close> of \<^verbatim>\<open>lib/db.js\<close>, the cache's
  \<^verbatim>\<open>lookup(question) -> CachedAnswer | absent\<close>. The key is the normalized
  question; a hit increments the entry's hit counter and leaves its answer.
\<close>

definition getCachedAnswer :: "world \<Rightarrow> string \<Rightarrow> cached_answer option \<times> world" where
  "getCachedAnswer w question =
     (case cache w (normalize question) of
        None \<Rightarrow> (None, w)
      | Some c \<Rightarrow>
          (let c' = c\<lparr>hitCount := hitCount c + 1\<rparr>
           in (Some c', w\<lparr>cache := (cache w)(normalize question \<mapsto> c')\<rparr>)))"

text \<open>
  Modelled from the spec: \<^verbatim>\<open>saveCachedAnswer\<close> of \<^verbatim>\<open>lib/db.js\<close>, the cache's
  \<^verbatim>\<open>store(question, answer) -> void\<close>, under the same normalized key.
\<close>

definition saveCachedAnswer :: "world \<Rightarrow> string \<Rightarrow> string \<Rightarrow> world" where
  "saveCachedAnswer w question a =
     w\<lparr>cache := (cache w)(normalize question \<mapsto> \<lparr>answer = a, hitCount = 0\<rparr>)\<rparr>"

subsection \<open>Conversation recorder\<close>

text \<open>
  Modelled from the spec: the title a new session gets from its seed (first 50
  characters, ellipsis-suffixed if truncated), inside
  \<^verbatim>\<open>createConversationSession\<close> of \<^verbatim>\<open>lib/db.js\<close>.
\<close>

definition session_title :: "string \<Rightarrow> string" where
  "session_title seed = take 50 seed @ (if 50 < length seed then ''...'' else [])"

text \<open>
  Modelled from the spec: \<^verbatim>\<open>createConversationSession(userId, seed)\<close> of
  \<^verbatim>\<open>lib/db.js\<close> creates a session of that owner with no message, titled from the
  seed, and returns its fresh identifier.
\<close>

definition createConversationSession :: "world \<Rightarrow> int \<Rightarrow> string \<Rightarrow> int \<times> world" where
  "createConversationSession w userId seed =
     (let i = next_session_id w
      in (i, w\<lparr>sessions := sessions w @
                   [\<lparr>session_id = i, owner = userId, title = session_title seed, message_count = 0\<rparr>],
                next_session_id := i + 1\<rparr>))"

text \<open>
  Modelled from the spec: \<^verbatim>\<open>addConversationMessage(sessionId, role, content, meta)\<close>
  of \<^verbatim>\<open>lib/db.js\<close> appends a message to an existing session and counts it; it
  rejects when the session does not exist or the role is neither \<^verbatim>\<open>user\<close> nor
  \<^verbatim>\<open>assistant\<close> (the constraints of the tables in \<^verbatim>\<open>docs/CONVERSATIONS.md\<close>).
\<close>

definition addConversationMessage ::
  "world \<Rightarrow> int \<Rightarrow> string \<Rightarrow> string \<Rightarrow> nat \<Rightarrow> nat option \<Rightarrow> bool \<Rightarrow> world outcome" where
  "addConversationMessage w sid r c tok ms cached =
     (if sid \<in> set (map session_id (sessions w)) \<and> (r = ''user'' \<or> r = ''assistant'')
      then Returns (w\<lparr>messages := messages w @
                        [\<lparr>msg_session = sid, msg_role = r, msg_content = c, tokensUsed = tok,
                          responseTimeMs = ms, wasCached = cached\<rparr>],
                      sessions := map (\<lambda>s. if session_id s = sid
                                            then s\<lparr>message_count := message_count s + 1\<rparr> else s)
                                      (sessions w)\<rparr>)
      else Throws)"

section \<open>The chat endpoint\<close>

text \<open>The literal texts of the handler; \<open>CHR 0xE9\<close> is the letter e with an acute accent.\<close>

definition illimite :: string where
  "illimite = ''illimit'' @ [CHR 0xE9]"

definition signup_message :: string where
  "signup_message = ''Vous avez utilis'' @ [CHR 0xE9] @
     '' vos 2 questions gratuites. Inscrivez-vous pour continuer.''"

definition config_message :: string where
  "config_message = ''Configuration manquante. Veuillez contacter l'' @ [CHR 0x27] @ ''administrateur.''"

definition generation_message :: string where
  "generation_message = ''Erreur lors de la g'' @ [CHR 0xE9] @ ''n'' @ [CHR 0xE9] @
     ''ration de la r'' @ [CHR 0xE9] @ ''ponse. Veuillez r'' @ [CHR 0xE9] @ ''essayer.''"

definition fallback_answer :: string where
  "fallback_answer = ''D'' @ [CHR 0xE9] @ ''sol'' @ [CHR 0xE9] @ '', je n'' @ [CHR 0x27] @
     ''ai pas pu g'' @ [CHR 0xE9] @ ''n'' @ [CHR 0xE9] @ ''rer une r'' @ [CHR 0xE9] @ ''ponse.''"

text \<open>\<^verbatim>\<open>res.status(s).json(j)\<close> on a response object carrying the headers \<open>h\<close>.\<close>

definition respond :: "rateLimit option \<Rightarrow> nat \<Rightarrow> (string \<times> json) list \<Rightarrow> response" where
  "respond h s j = \<lparr>status = s, json = j, ratelimit_headers = h, set_cookie = None\<rparr>"

text \<open>The \<^verbatim>\<open>catch\<close> block of the chat handler (lines 368 to 373).\<close>

definition internal_error :: "rateLimit option \<Rightarrow> response" where
  "internal_error h = respond h 500 [(''error'', JStr ''Erreur interne du serveur'')]"

text \<open>
  Modelled from the spec: \<^verbatim>\<open>sendRateLimitError(res, rateLimit)\<close> of
  \<^verbatim>\<open>lib/ratelimit.js\<close> answers with a client-error status and a denial payload
  carrying limit, remaining and reset, the usage headers attached.
\<close>

definition sendRateLimitError :: "rateLimit \<Rightarrow> response" where
  "sendRateLimitError rl =
     respond (Some rl) 429
       [(''limit'', JNum (Num (int (rl_limit rl)))),
        (''remaining'', JNum (Num (int (rl_remaining rl)))),
        (''reset'', JNum (Num (int (rl_reset rl))))]"

text \<open>
  Modelled from the spec: \<^verbatim>\<open>addRateLimitHeaders(res, rateLimit)\<close> of
  \<^verbatim>\<open>lib/ratelimit.js\<close> attaches the usage headers encoding the decision's
  limit, remaining budget and reset time.
\<close>

definition addRateLimitHeaders :: "rateLimit \<Rightarrow> rateLimit option" where
  "addRateLimitHeaders rl = Some rl"

subsection \<open>Lines 347 to 366: the counter and the success response\<close>

definition reply :: "rateLimit option \<Rightarrow> bool \<Rightarrow> jsnum \<Rightarrow> string \<Rightarrow> bool \<Rightarrow> int option \<Rightarrow> response" where
  "reply h registered qUsed ans fromCache conversationSessionId =
     (let newQUsed = (if registered then qUsed else js_add qUsed (Num 1));
          remaining = (if registered then JStr illimite
                       else JNum (js_max (Num 0) (js_sub (Num 2) newQUsed)))
      in \<lparr>status = 200,
          json = [(''success'', JBool True),
                  (''response'', JStr ans),
                  (''qUsed'', JNum newQUsed),
                  (''remaining'', remaining),
                  (''cached'', JBool fromCache)] @
                 (case conversationSessionId of None \<Rightarrow> []
                  | Some i \<Rightarrow> [(''sessionId'', JNum (Num i))]),
          ratelimit_headers = h,
          set_cookie = (if registered then None
                        else Some (createCookie ''q_used'' (js_toString newQUsed) (24 * 60 * 60)))\<rparr>)"

subsection \<open>Lines 311 to 345: recording the exchange\<close>

text \<open>A store call: it is traced, and rejects when the store is in error.\<close>

definition call_createConversationSession :: "env \<Rightarrow> int \<Rightarrow> string \<Rightarrow> world \<Rightarrow> int outcome \<times> world" where
  "call_createConversationSession env userId seed w =
     (let e = CreateConversationSession userId seed; w1 = called e w
      in if store_error env e then (Throws, w1)
         else (case createConversationSession w1 userId seed of (i, w2) \<Rightarrow> (Returns i, w2)))"

definition call_addConversationMessage ::
  "env \<Rightarrow> int \<Rightarrow> string \<Rightarrow> string \<Rightarrow> nat \<Rightarrow> nat option \<Rightarrow> bool \<Rightarrow> world \<Rightarrow> bool \<times> world" where
  "call_addConversationMessage env sid r c tok ms cached w =
     (let e = AddConversationMessage sid r c; w1 = called e w
      in if store_error env e then (False, w1)
         else (case addConversationMessage w1 sid r c tok ms cached of
                 Throws \<Rightarrow> (False, w1)
               | Returns w2 \<Rightarrow> (True, w2)))"

text \<open>
  The \<^verbatim>\<open>try\<close> block of lines 314 to 340 with its \<^verbatim>\<open>catch\<close>. The result tells
  whether an exception was caught, the value of \<^verbatim>\<open>conversationSessionId\<close>
  afterwards and the stores. \<^verbatim>\<open>!conversationSessionId\<close> holds for an absent
  identifier and for 0.
\<close>

definition saveConversation ::
  "env \<Rightarrow> user \<Rightarrow> int option \<Rightarrow> string \<Rightarrow> string \<Rightarrow> nat \<Rightarrow> bool \<Rightarrow> world
     \<Rightarrow> bool \<times> int option \<times> world" where
  "saveConversation env currentUser conversationSessionId msg ans tok fromCache w =
     (case (case conversationSessionId of
              None \<Rightarrow> call_createConversationSession env (user_id currentUser) msg w
            | Some i \<Rightarrow> if i = 0 then call_createConversationSession env (user_id currentUser) msg w
                        else (Returns i, w)) of
        (Throws, w1) \<Rightarrow> (True, conversationSessionId, w1)
      | (Returns sid, w1) \<Rightarrow>
          (case call_addConversationMessage env sid ''user'' msg 0 None False w1 of
             (False, w2) \<Rightarrow> (True, Some sid, w2)
           | (True, w2) \<Rightarrow>
               (case call_addConversationMessage env sid ''assistant'' ans tok
                       (Some (elapsed env)) fromCache w2 of
                  (False, w3) \<Rightarrow> (True, Some sid, w3)
                | (True, w3) \<Rightarrow> (False, Some sid, w3))))"

subsection \<open>Lines 305 to 366: after the answer is known\<close>

definition answered ::
  "env \<Rightarrow> rateLimit option \<Rightarrow> bool \<Rightarrow> jsnum \<Rightarrow> user option \<Rightarrow> int option \<Rightarrow> string
     \<Rightarrow> string \<Rightarrow> bool \<Rightarrow> nat \<Rightarrow> world \<Rightarrow> response option \<times> world" where
  "answered env h registered qUsed currentUser sid msg ans fromCache tok w =
     (case currentUser of
        None \<Rightarrow> (Some (reply h registered qUsed ans fromCache sid), w)
      | Some u \<Rightarrow>
          (case saveConversation env u sid msg ans tok fromCache w of
             (caught, sid', w1) \<Rightarrow> (Some (reply h registered qUsed ans fromCache sid'), w1)))"

subsection \<open>Lines 248 to 303: cache lookup, provider call, cache store\<close>

text \<open>
  \<^verbatim>\<open>openaiData.choices[0]?.message?.content || '...'\<close>, given the contents of the
  choices.
\<close>

definition first_content :: "string option list \<Rightarrow> string" where
  "first_content cs = (case cs of [] \<Rightarrow> fallback_answer | c # _ \<Rightarrow> or_else c fallback_answer)"

definition resolve_answer ::
  "env \<Rightarrow> rateLimit option \<Rightarrow> bool \<Rightarrow> jsnum \<Rightarrow> user option \<Rightarrow> int option \<Rightarrow> string
     \<Rightarrow> world \<Rightarrow> response option \<times> world" where
  "resolve_answer env h registered qUsed currentUser sid msg w =
     (let w1 = called (GetCachedAnswer msg) w
      in if store_error env (GetCachedAnswer msg) then (Some (internal_error h), w1)
         else (case getCachedAnswer w1 msg of
            (Some cachedResponse, w2) \<Rightarrow>
              answered env h registered qUsed currentUser sid msg (answer cachedResponse) True 0 w2
          | (None, w2) \<Rightarrow>
              (let w3 = called (Fetch msg) w2
               in case fetch env msg of
                    Throws \<Rightarrow> (Some (internal_error h), w3)
                  | Returns openaiResponse \<Rightarrow>
                      if \<not> ok openaiResponse
                      then (Some (respond h 500 [(''error'', JStr generation_message)]), w3)
                      else (case json_body openaiResponse of
                              Throws \<Rightarrow> (Some (internal_error h), w3)
                            | Returns openaiData \<Rightarrow>
                                (case choices openaiData of
                                   None \<Rightarrow> (Some (internal_error h), w3)
                                 | Some cs \<Rightarrow>
                                     (let ans = first_content cs;
                                          tok = (case total_tokens openaiData of None \<Rightarrow> 0 | Some n \<Rightarrow> n);
                                          w4 = called (SaveCachedAnswer msg ans) w3
                                      in if store_error env (SaveCachedAnswer msg ans)
                                         then (Some (internal_error h), w4)
                                         else answered env h registered qUsed currentUser sid msg
                                                ans False tok (saveCachedAnswer w4 msg ans)))))))"

subsection \<open>Lines 210 to 246: admission, quota gate, configuration\<close>

text \<open>Lines 216 and 217: the tier and the identity the limiter is asked about.\<close>

definition choose_limiter :: "bool \<Rightarrow> limiter" where
  "choose_limiter registered = (if registered then chatRateLimiterRegistered else chatRateLimiter)"

definition choose_identifier :: "env \<Rightarrow> bool \<Rightarrow> string option \<Rightarrow> string" where
  "choose_identifier env registered userEmail =
     (if registered \<and> truthy userEmail then or_else userEmail [] else getClientIp env)"

text \<open>Line 230: the anonymous quota gate.\<close>

definition quota_exhausted :: "bool \<Rightarrow> jsnum \<Rightarrow> bool" where
  "quota_exhausted registered qUsed = (\<not> registered \<and> js_ge qUsed (Num 2))"

definition admission ::
  "env \<Rightarrow> bool \<Rightarrow> string option \<Rightarrow> jsnum \<Rightarrow> user option \<Rightarrow> int option \<Rightarrow> string
     \<Rightarrow> world \<Rightarrow> response option \<times> world" where
  "admission env registered userEmail qUsed currentUser sid msg w =
     (let lim = choose_limiter registered;
          identifier = choose_identifier env registered userEmail;
          w1 = called (CheckRateLimit lim identifier) w
      in case checkRateLimit env lim identifier of
           Throws \<Rightarrow> (Some (internal_error None), w1)
         | Returns rateLimit \<Rightarrow>
             if \<not> rl_success rateLimit then (Some (sendRateLimitError rateLimit), w1)
             else (let h = addRateLimitHeaders rateLimit
                   in if quota_exhausted registered qUsed
                      then (Some (respond h 200
                                    [(''success'', JBool False),
                                     (''needSignup'', JBool True),
                                     (''message'', JStr signup_message),
                                     (''qUsed'', JNum qUsed),
                                     (''remaining'', JNum (Num 0))]), w1)
                      else if \<not> truthy (OPENAI_API_KEY env)
                      then (Some (respond h 500 [(''error'', JStr config_message)]), w1)
                      else resolve_answer env h registered qUsed currentUser sid msg w1))"

subsection \<open>Lines 172 to 208: the entry of the handler\<close>

text \<open>Lines 193 to 196: what the handler reads from the cookies.\<close>

definition cookie_qUsed :: "request \<Rightarrow> jsnum" where
  "cookie_qUsed req = js_parseInt (or_else (req_cookies req ''q_used'') ''0'')"

definition cookie_registered :: "request \<Rightarrow> bool" where
  "cookie_registered req = (req_cookies req ''registered'' = Some ''1'')"

definition cookie_userEmail :: "request \<Rightarrow> string option" where
  "cookie_userEmail req = req_cookies req ''user_email''"

text \<open>Lines 200 to 208: the user behind the cookies, \<open>None\<close> for \<^verbatim>\<open>null\<close>.\<close>

definition lookup_user :: "env \<Rightarrow> bool \<Rightarrow> string option \<Rightarrow> world \<Rightarrow> user option \<times> world" where
  "lookup_user env registered userEmail w =
     (if registered \<and> truthy userEmail
      then (let e = or_else userEmail []; w1 = called (FindUserByEmail e) w
            in case findUserByEmail env e of
                 Throws \<Rightarrow> (None, w1)
               | Returns u \<Rightarrow> (u, w1))
      else (None, w))"

text \<open>
  The result is \<open>None\<close> when \<^verbatim>\<open>handleCorsPreflight\<close> has answered the request
  itself. A request without a body makes the destructuring of line 186 throw
  inside the \<^verbatim>\<open>try\<close>.
\<close>

definition handler :: "env \<Rightarrow> request \<Rightarrow> world \<Rightarrow> response option \<times> world" where
  "handler env req w =
     (if handleCorsPreflight env then (None, w)
      else if req_method req \<noteq> ''POST''
      then (Some (respond None 405 [(''error'', JStr ''Method not allowed'')]), w)
      else (case req_body req of
              None \<Rightarrow> (Some (internal_error None), w)
            | Some b \<Rightarrow>
                if \<not> truthy (message b) \<or> js_trim (or_else (message b) []) = []
                then (Some (respond None 400 [(''error'', JStr ''Message is required'')]), w)
                else (let msg = or_else (message b) [];
                          qUsed = cookie_qUsed req;
                          registered = cookie_registered req;
                          userEmail = cookie_userEmail req
                      in case lookup_user env registered userEmail w of
                           (currentUser, w1) \<Rightarrow>
                             admission env registered userEmail qUsed currentUser (sessionId b) msg w1)))"

section \<open>The conversations endpoint: saving anonymous messages\<close>

record chat_message =
  role :: string
  content :: string

text \<open>Lines 120 to 124 of \<^verbatim>\<open>src/unnamed/part_000\<close>: the title of the new session.\<close>

definition anonymous_title :: "chat_message list \<Rightarrow> string" where
  "anonymous_title msgs =
     (case find (\<lambda>m. role m = ''user'') msgs of
        Some firstUserMessage \<Rightarrow>
          take 50 (content firstUserMessage) @
          (if 50 < length (content firstUserMessage) then ''...'' else [])
      | None \<Rightarrow> ''Conversation anonyme'')"

text \<open>Lines 128 to 140: the loop appending every message; it stops at the first rejection.\<close>

fun add_all :: "env \<Rightarrow> int \<Rightarrow> chat_message list \<Rightarrow> world \<Rightarrow> bool \<times> world" where
  "add_all env sid [] w = (True, w)"
| "add_all env sid (m # ms) w =
     (case call_addConversationMessage env sid (role m) (content m) 0 (Some 0) False w of
        (False, w1) \<Rightarrow> (False, w1)
      | (True, w1) \<Rightarrow> add_all env sid ms w1)"

definition saved_message :: string where
  "saved_message = ''Messages sauvegard'' @ [CHR 0xE9] @ ''s avec succ'' @ [CHR 0xE8] @ ''s''"

text \<open>
  Lines 113 to 153: the \<^verbatim>\<open>saveAnonymous\<close> action for the authenticated \<open>user\<close>.
  \<open>Throws\<close> is an exception that reaches the handler's \<^verbatim>\<open>catch\<close>.
\<close>

definition saveAnonymous :: "env \<Rightarrow> user \<Rightarrow> chat_message list \<Rightarrow> world \<Rightarrow> response outcome \<times> world" where
  "saveAnonymous env u msgs w =
     (if msgs = [] then (Returns (respond None 400 [(''error'', JStr ''Messages requis'')]), w)
      else (case call_createConversationSession env (user_id u) (anonymous_title msgs) w of
              (Throws, w1) \<Rightarrow> (Throws, w1)
            | (Returns sid, w1) \<Rightarrow>
                (case add_all env sid msgs w1 of
                   (False, w2) \<Rightarrow> (Throws, w2)
                 | (True, w2) \<Rightarrow>
                     (Returns (respond None 200
                        [(''success'', JBool True),
                         (''sessionId'', JNum (Num sid)),
                         (''message'', JStr saved_message)]), w2))))"

section \<open>Observations on the stores\<close>

text \<open>The calls of the conversation recorder.\<close>

fun recording_call :: "event \<Rightarrow> bool" where
  "recording_call (CreateConversationSession _ _) = True"
| "recording_call (AddConversationMessage _ _ _) = True"
| "recording_call _ = False"

text \<open>Identifier, owner and title of every session, in creation order.\<close>

definition session_heads :: "world \<Rightarrow> (int \<times> int \<times> string) list" where
  "session_heads w = map (\<lambda>s. (session_id s, owner s, title s)) (sessions w)"

text \<open>A response without its \<^verbatim>\<open>sessionId\<close> field.\<close>

definition without_sessionId :: "response \<Rightarrow> response" where
  "without_sessionId r = r\<lparr>json := filter (\<lambda>kv. fst kv \<noteq> ''sessionId'') (json r)\<rparr>"

section \<open>Example inputs\<close>

definition example_decision :: rateLimit where
  "example_decision = \<lparr>rl_success = True, rl_limit = 10, rl_remaining = 9, rl_reset = 60\<rparr>"

definition example_env :: env where
  "example_env =
     \<lparr>handleCorsPreflight = False,
      findUserByEmail = (\<lambda>e. if e = ''alice@example.org'' then Returns (Some \<lparr>user_id = 7\<rparr>)
                             else Returns None),
      getClientIp = ''203.0.113.9'',
      checkRateLimit = (\<lambda>l i. Returns example_decision),
      OPENAI_API_KEY = Some ''sk-test'',
      fetch = (\<lambda>m. Returns \<lparr>ok = True, http_status = 200, statusText = ''OK'',
                    json_body = Returns \<lparr>choices = Some [Some ''Consultez un avocat.''],
                                         total_tokens = Some 42\<rparr>\<rparr>),
      store_error = (\<lambda>e. False),
      elapsed = 1250\<rparr>"

definition example_world :: world where
  "example_world = \<lparr>cache = Map.empty, sessions = [], messages = [], next_session_id = 1, calls = []\<rparr>"

definition example_body :: "string \<Rightarrow> body" where
  "example_body m = \<lparr>message = Some m, sessionId = None\<rparr>"

definition example_request :: "string \<Rightarrow> (string \<rightharpoonup> string) \<Rightarrow> request" where
  "example_request m cs = \<lparr>req_method = ''POST'', req_body = Some (example_body m), req_cookies = cs\<rparr>"

definition example_denial :: rateLimit where
  "example_denial = \<lparr>rl_success = False, rl_limit = 10, rl_remaining = 0, rl_reset = 60\<rparr>"

definition example_outage :: fetch_response where
  "example_outage = \<lparr>ok = False, http_status = 503, statusText = ''Service Unavailable'',
                      json_body = Throws\<rparr>"

definition example_cached_world :: world where
  "example_cached_world =
     example_world\<lparr>cache := [''puis-je divorcer ?'' \<mapsto>
                                \<lparr>answer = ''Consultez un avocat.'', hitCount = 3\<rparr>]\<rparr>"

definition example_long_message :: string where
  "example_long_message = ''Quelles sont les etapes du divorce par consentement mutuel ?''"

definition example_messages :: "chat_message list" where
  "example_messages =
     [\<lparr>role = ''assistant'', content = ''Bonjour''\<rparr>,
      \<lparr>role = ''user'', content = example_long_message\<rparr>]"

section \<open>Basic facts\<close>

lemma truthy_Some: "truthy (Some m) = (m \<noteq> [])"
  by (simp add: truthy_def)

lemma or_else_Some: "m \<noteq> [] \<Longrightarrow> or_else (Some m) d = m"
  by (simp add: or_else_def)

lemma js_trim_Nil: "js_trim [] = []"
  by (simp add: js_trim_def)

text \<open>A well-formed POST with a non-blank message reaches the user lookup and admission.\<close>

lemma handler_entry:
  assumes "\<not> handleCorsPreflight env" "req_method req = ''POST''" "req_body req = Some b"
    "message b = Some m" "js_trim m \<noteq> []"
  shows "handler env req w =
     (case lookup_user env (cookie_registered req) (cookie_userEmail req) w of
        (currentUser, w1) \<Rightarrow>
          admission env (cookie_registered req) (cookie_userEmail req) (cookie_qUsed req)
            currentUser (sessionId b) m w1)"
proof -
  from assms(5) have "m \<noteq> []" by (auto simp: js_trim_Nil)
  with assms show ?thesis
    by (simp add: handler_def truthy_Some or_else_Some Let_def)
qed

lemmas example_defs = example_env_def example_request_def example_body_def example_decision_def
  example_world_def example_denial_def example_outage_def example_cached_world_def

lemmas cookie_defs = cookie_registered_def cookie_qUsed_def cookie_userEmail_def

lemmas js_eval = js_trim_def js_space_def js_parseInt_def or_else_def truthy_def digit_of_def
  js_ge_def js_add_def js_sub_def js_max_def

lemmas handler_eval = handler_def lookup_user_def admission_def choose_limiter_def
  choose_identifier_def quota_exhausted_def addRateLimitHeaders_def resolve_answer_def
  answered_def saveConversation_def call_createConversationSession_def
  call_addConversationMessage_def createConversationSession_def addConversationMessage_def
  getCachedAnswer_def saveCachedAnswer_def normalize_def to_lower_def session_title_def
  first_content_def called_def respond_def internal_error_def sendRateLimitError_def Let_def

subsection \<open>The responses\<close>

lemma respond_fields:
  "status (respond h s j) = s" "json (respond h s j) = j"
  "ratelimit_headers (respond h s j) = h" "set_cookie (respond h s j) = None"
  by (simp_all add: respond_def)

lemmas failure_fields = respond_fields internal_error_def sendRateLimitError_def

lemma reply_fields:
  "status (reply h reg q a fc sid) = 200"
  "map_of (json (reply h reg q a fc sid)) ''success'' = Some (JBool True)"
  "map_of (json (reply h reg q a fc sid)) ''response'' = Some (JStr a)"
  "map_of (json (reply h reg q a fc sid)) ''cached'' = Some (JBool fc)"
  "map_of (json (reply h reg q a fc sid)) ''qUsed'' = Some (JNum (if reg then q else js_add q (Num 1)))"
  "map_of (json (reply h reg q a fc sid)) ''remaining'' =
     Some (if reg then JStr illimite else JNum (js_max (Num 0) (js_sub (Num 2) (js_add q (Num 1)))))"
  "map_of (json (reply h reg q a fc sid)) ''needSignup'' = None"
  "ratelimit_headers (reply h reg q a fc sid) = h"
  "set_cookie (reply h reg q a fc sid) =
     (if reg then None else Some (createCookie ''q_used'' (js_toString (js_add q (Num 1))) 86400))"
  by (simp_all add: reply_def Let_def split: option.splits)

subsection \<open>The recorder leaves the cache alone\<close>

lemma call_create_cache:
  "call_createConversationSession env uid seed w = (r, w1) \<Longrightarrow> cache w1 = cache w"
  by (auto simp: call_createConversationSession_def createConversationSession_def called_def Let_def
      split: if_splits)

lemma call_add_cache:
  "call_addConversationMessage env sid r c tok ms cached w = (res, w1) \<Longrightarrow> cache w1 = cache w"
  by (auto simp: call_addConversationMessage_def addConversationMessage_def called_def Let_def
      split: if_splits outcome.splits)

lemma saveConversation_cache:
  assumes "saveConversation env u sid m a tok fc w = (caught, sid', w1)"
  shows "cache w1 = cache w"
  using assms unfolding saveConversation_def
  by (auto split: option.splits if_splits prod.splits outcome.splits bool.splits
      dest!: call_create_cache call_add_cache)

subsection \<open>What each stage of the chat handler can answer\<close>

lemma answered_reply:
  assumes "answered env h reg q cu sid m a fc tok w = (ro, w1)"
  shows "(\<exists>sid'. ro = Some (reply h reg q a fc sid')) \<and> cache w1 = cache w"
  using assms unfolding answered_def
  by (auto split: option.splits prod.splits dest: saveConversation_cache)

lemma resolve_answer_shape:
  assumes "resolve_answer env h reg q cu sid m w = (ro, w')"
  shows "ro = Some (internal_error h) \<or> ro = Some (respond h 500 [(''error'', JStr generation_message)])
         \<or> (\<exists>a fc sid'. ro = Some (reply h reg q a fc sid'))"
  using assms unfolding resolve_answer_def Let_def
  by (auto split: if_splits prod.splits option.splits outcome.splits dest!: answered_reply)

lemma admission_shape:
  assumes "admission env reg ue q cu sid m w = (ro, w')"
  shows "(checkRateLimit env (choose_limiter reg) (choose_identifier env reg ue) = Throws
            \<and> ro = Some (internal_error None))
       \<or> (\<exists>rl. checkRateLimit env (choose_limiter reg) (choose_identifier env reg ue) = Returns rl \<and>
            (ro = Some (sendRateLimitError rl)
             \<or> (quota_exhausted reg q \<and>
                ro = Some (respond (Some rl) 200
                            [(''success'', JBool False), (''needSignup'', JBool True),
                             (''message'', JStr signup_message), (''qUsed'', JNum q),
                             (''remaining'', JNum (Num 0))]))
             \<or> (\<not> quota_exhausted reg q \<and>
                 (ro = Some (respond (Some rl) 500 [(''error'', JStr config_message)])
                  \<or> ro = Some (internal_error (Some rl))
                  \<or> ro = Some (respond (Some rl) 500 [(''error'', JStr generation_message)])
                  \<or> (\<exists>a fc sid'. ro = Some (reply (Some rl) reg q a fc sid'))))))"
  using assms unfolding admission_def Let_def addRateLimitHeaders_def
  by (auto split: if_splits outcome.splits dest!: resolve_answer_shape)

lemma handler_shape:
  assumes "handler env req w = (Some r, w')"
  shows "r = respond None 405 [(''error'', JStr ''Method not allowed'')]
       \<or> r = internal_error None
       \<or> r = respond None 400 [(''error'', JStr ''Message is required'')]
       \<or> (\<exists>rl. r = sendRateLimitError rl
             \<or> (quota_exhausted (cookie_registered req) (cookie_qUsed req) \<and>
                 r = respond (Some rl) 200
                       [(''success'', JBool False), (''needSignup'', JBool True),
                        (''message'', JStr signup_message), (''qUsed'', JNum (cookie_qUsed req)),
                        (''remaining'', JNum (Num 0))])
             \<or> (\<not> quota_exhausted (cookie_registered req) (cookie_qUsed req) \<and>
                 (r = respond (Some rl) 500 [(''error'', JStr config_message)]
                  \<or> r = internal_error (Some rl)
                  \<or> r = respond (Some rl) 500 [(''error'', JStr generation_message)]
                  \<or> (\<exists>a fc sid'. r = reply (Some rl) (cookie_registered req) (cookie_qUsed req)
                                         a fc sid'))))"
  using assms unfolding handler_def Let_def
  by (auto split: if_splits option.splits prod.splits dest!: admission_shape)

subsection \<open>Without an owner nothing is recorded\<close>




subsection \<open>Titles and new sessions\<close>

lemma session_title_cases:
  "session_title s = (if 50 < length s then take 50 s @ ''...'' else s)"
  by (simp add: session_title_def)

lemma session_title_idem: "session_title (session_title s) = session_title s"
  by (simp add: session_title_def)

lemma anonymous_title_cases:
  "anonymous_title msgs =
     (case find (\<lambda>m. role m = ''user'') msgs of
        Some f \<Rightarrow> session_title (content f)
      | None \<Rightarrow> ''Conversation anonyme'')"
  by (simp add: anonymous_title_def session_title_def split: option.splits)

lemma session_title_anonymous: "session_title (anonymous_title msgs) = anonymous_title msgs"
  by (simp add: anonymous_title_cases session_title_idem split: option.splits)
     (simp add: session_title_def)

lemma call_create_heads:
  assumes "call_createConversationSession env uid seed w = (Returns i, w1)"
  shows "i = next_session_id w \<and>
         session_heads w1 = session_heads w @ [(next_session_id w, uid, session_title seed)]"
  using assms
  by (auto simp: call_createConversationSession_def createConversationSession_def called_def
      session_heads_def Let_def split: if_splits)

lemma call_create_Returns:
  "\<not> store_error env (CreateConversationSession uid seed) \<Longrightarrow>
   \<exists>w1. call_createConversationSession env uid seed w = (Returns (next_session_id w), w1)"
  by (simp add: call_createConversationSession_def createConversationSession_def called_def Let_def)

lemma call_add_heads:
  "call_addConversationMessage env sid r c tok ms cached w = (res, w1) \<Longrightarrow>
   session_heads w1 = session_heads w"
  by (auto simp: call_addConversationMessage_def addConversationMessage_def called_def
      session_heads_def Let_def split: if_splits outcome.splits)

lemma add_all_heads:
  "add_all env sid msgs w = (res, w1) \<Longrightarrow> session_heads w1 = session_heads w"
proof (induction msgs arbitrary: w)
  case Nil
  then show ?case by simp
next
  case (Cons m ms)
  then show ?case
    by (auto split: prod.splits bool.splits dest: call_add_heads)
qed

lemma saveConversation_new_session:
  assumes "sid = None \<or> sid = Some 0"
    and "\<not> store_error env (CreateConversationSession (user_id u) m)"
    and "saveConversation env u sid m a tok fc w = (caught, sid', w1)"
  shows "sid' = Some (next_session_id w) \<and>
         session_heads w1 = session_heads w @ [(next_session_id w, user_id u, session_title m)]"
proof -
  from call_create_Returns[OF assms(2)] obtain w0 where
    c: "call_createConversationSession env (user_id u) m w = (Returns (next_session_id w), w0)"
    by blast
  from call_create_heads[OF c] have h0:
    "session_heads w0 = session_heads w @ [(next_session_id w, user_id u, session_title m)]"
    by simp
  from assms(1,3) c have "sid' = Some (next_session_id w) \<and> session_heads w1 = session_heads w0"
    unfolding saveConversation_def
    by (auto split: prod.splits bool.splits dest!: call_add_heads)
  with h0 show ?thesis by simp
qed

lemma saveAnonymous_new_session:
  assumes "msgs \<noteq> []"
    and "\<not> store_error env (CreateConversationSession (user_id u) (anonymous_title msgs))"
    and "saveAnonymous env u msgs w = (res, w1)"
  shows "session_heads w1 = session_heads w @ [(next_session_id w, user_id u, anonymous_title msgs)]"
proof -
  from call_create_Returns[OF assms(2)] obtain w0 where
    c: "call_createConversationSession env (user_id u) (anonymous_title msgs) w
          = (Returns (next_session_id w), w0)"
    by blast
  from call_create_heads[OF c] have h0:
    "session_heads w0 = session_heads w @ [(next_session_id w, user_id u, anonymous_title msgs)]"
    by (simp add: session_title_anonymous)
  from assms(1,3) c have "session_heads w1 = session_heads w0"
    unfolding saveAnonymous_def
    by (auto split: prod.splits bool.splits dest: add_all_heads)
  with h0 show ?thesis by simp
qed

subsection \<open>Three requests of one anonymous caller\<close>

text \<open>
  The same question asked three times, the second time in another case and with
  surrounding blanks, the cookie carried over: a cache miss answered by the
  provider, a cache hit, then the signup prompt with no call but the rate-limit
  check.
\<close>

lemma end_to_end_example:
  "fst (handler example_env (example_request ''What is X?'' Map.empty) example_world)
     = Some \<lparr>status = 200,
             json = [(''success'', JBool True), (''response'', JStr ''Consultez un avocat.''),
                     (''qUsed'', JNum (Num 1)), (''remaining'', JNum (Num 1)),
                     (''cached'', JBool False)],
             ratelimit_headers = Some example_decision,
             set_cookie = Some (createCookie ''q_used'' ''1'' 86400)\<rparr>"
  "fst (handler example_env (example_request ''  what IS x? '' [''q_used'' \<mapsto> ''1''])
          (snd (handler example_env (example_request ''What is X?'' Map.empty) example_world)))
     = Some \<lparr>status = 200,
             json = [(''success'', JBool True), (''response'', JStr ''Consultez un avocat.''),
                     (''qUsed'', JNum (Num 2)), (''remaining'', JNum (Num 0)),
                     (''cached'', JBool True)],
             ratelimit_headers = Some example_decision,
             set_cookie = Some (createCookie ''q_used'' ''2'' 86400)\<rparr>"
  "handler example_env (example_request ''What is X?'' [''q_used'' \<mapsto> ''2''])
     (snd (handler example_env (example_request ''  what IS x? '' [''q_used'' \<mapsto> ''1''])
        (snd (handler example_env (example_request ''What is X?'' Map.empty) example_world))))
     = (Some \<lparr>status = 200,
              json = [(''success'', JBool False), (''needSignup'', JBool True),
                      (''message'', JStr signup_message), (''qUsed'', JNum (Num 2)),
                      (''remaining'', JNum (Num 0))],
              ratelimit_headers = Some example_decision, set_cookie = None\<rparr>,
        called (CheckRateLimit chatRateLimiter ''203.0.113.9'')
          (snd (handler example_env (example_request ''  what IS x? '' [''q_used'' \<mapsto> ''1''])
             (snd (handler example_env (example_request ''What is X?'' Map.empty) example_world)))))"
  by (simp_all add: handler_eval reply_def js_toString_def digit_char_def example_defs cookie_defs js_eval)

section \<open>The anonymous quota gate\<close>



section \<open>The counter\<close>



text \<open>
  A \<^verbatim>\<open>q_used\<close> cookie that \<^verbatim>\<open>parseInt\<close> cannot read gives \<^verbatim>\<open>NaN\<close>: the gate
  \<^verbatim>\<open>NaN >= 2\<close> is false and a success reports \<^verbatim>\<open>NaN\<close> again.
\<close>

lemma counter_not_a_number:
  assumes "handler env req w = (Some r, w')" and "cookie_qUsed req = NaN"
    and "map_of (json r) ''success'' = Some (JBool True)"
  shows "map_of (json r) ''qUsed'' = Some (JNum NaN)"
  using handler_shape[OF assms(1)] assms(2,3)
  by (auto simp: failure_fields reply_fields js_add_def split: if_splits)

section \<open>Admission comes first\<close>

text \<open>
  Claim C3. When the rate limiter denies a request, the handler answers with the
  denial of \<^verbatim>\<open>sendRateLimitError\<close>. Besides the user lookup of a registered
  caller, which precedes admission, the rate-limit check is the only collaborator
  called: no cache lookup, no provider call, no store is touched. The outcome is
  the same whatever the \<^verbatim>\<open>q_used\<close> cookie holds, so the counter plays no part in
  it.
\<close>

theorem rate_limit_denial_first:
  assumes "\<not> handleCorsPreflight env" "req_method req = ''POST''" "req_body req = Some b"
    "message b = Some m" "js_trim m \<noteq> []"
    and "checkRateLimit env (choose_limiter (cookie_registered req))
           (choose_identifier env (cookie_registered req) (cookie_userEmail req)) = Returns rl"
    and "\<not> rl_success rl"
  shows "handler env req w =
           (Some (sendRateLimitError rl),
            w\<lparr>calls := calls w @
                 (if cookie_registered req \<and> truthy (cookie_userEmail req)
                  then [FindUserByEmail (or_else (cookie_userEmail req) [])] else []) @
                 [CheckRateLimit (choose_limiter (cookie_registered req))
                    (choose_identifier env (cookie_registered req) (cookie_userEmail req))]\<rparr>)
         \<and> handler env (req\<lparr>req_cookies := (req_cookies req)(''q_used'' := v)\<rparr>) w = handler env req w"
proof -
  let ?req' = "req\<lparr>req_cookies := (req_cookies req)(''q_used'' := v)\<rparr>"
  have same: "cookie_registered ?req' = cookie_registered req"
    "cookie_userEmail ?req' = cookie_userEmail req"
    by (simp_all add: cookie_defs)
  have run: "handler env r w =
           (Some (sendRateLimitError rl),
            w\<lparr>calls := calls w @
                 (if cookie_registered req \<and> truthy (cookie_userEmail req)
                  then [FindUserByEmail (or_else (cookie_userEmail req) [])] else []) @
                 [CheckRateLimit (choose_limiter (cookie_registered req))
                    (choose_identifier env (cookie_registered req) (cookie_userEmail req))]\<rparr>)"
    if "req_method r = ''POST''" "req_body r = Some b"
      "cookie_registered r = cookie_registered req" "cookie_userEmail r = cookie_userEmail req"
    for r
    using assms(6,7) that(3,4)
    by (simp add: handler_entry[OF assms(1) that(1,2) assms(4,5)] lookup_user_def admission_def
        called_def Let_def split: outcome.splits)
  have "handler env ?req' w = handler env req w"
    using run[of ?req'] run[of req] assms(2,3) same by simp
  with run[of req] assms(2,3) show ?thesis by simp
qed

theorem rate_limit_denial_first_witness:
  "\<not> handleCorsPreflight (example_env\<lparr>checkRateLimit := \<lambda>l i. Returns example_denial\<rparr>) \<and>
   req_method (example_request ''Puis-je divorcer ?'' [''q_used'' \<mapsto> ''1'']) = ''POST'' \<and>
   req_body (example_request ''Puis-je divorcer ?'' [''q_used'' \<mapsto> ''1''])
     = Some (example_body ''Puis-je divorcer ?'') \<and>
   message (example_body ''Puis-je divorcer ?'') = Some ''Puis-je divorcer ?'' \<and>
   js_trim ''Puis-je divorcer ?'' \<noteq> [] \<and>
   checkRateLimit (example_env\<lparr>checkRateLimit := \<lambda>l i. Returns example_denial\<rparr>)
     (choose_limiter (cookie_registered (example_request ''Puis-je divorcer ?'' [''q_used'' \<mapsto> ''1''])))
     (choose_identifier (example_env\<lparr>checkRateLimit := \<lambda>l i. Returns example_denial\<rparr>)
        (cookie_registered (example_request ''Puis-je divorcer ?'' [''q_used'' \<mapsto> ''1'']))
        (cookie_userEmail (example_request ''Puis-je divorcer ?'' [''q_used'' \<mapsto> ''1''])))
     = Returns example_denial \<and>
   \<not> rl_success example_denial \<and>
   handler (example_env\<lparr>checkRateLimit := \<lambda>l i. Returns example_denial\<rparr>)
     (example_request ''Puis-je divorcer ?'' [''q_used'' \<mapsto> ''1'']) example_world
     = (Some (sendRateLimitError example_denial),
        example_world\<lparr>calls := [CheckRateLimit chatRateLimiter ''203.0.113.9'']\<rparr>) \<and>
   handler (example_env\<lparr>checkRateLimit := \<lambda>l i. Returns example_denial\<rparr>)
     ((example_request ''Puis-je divorcer ?'' [''q_used'' \<mapsto> ''1''])
        \<lparr>req_cookies := [''q_used'' \<mapsto> ''1''](''q_used'' := Some ''7'')\<rparr>) example_world
     = handler (example_env\<lparr>checkRateLimit := \<lambda>l i. Returns example_denial\<rparr>)
         (example_request ''Puis-je divorcer ?'' [''q_used'' \<mapsto> ''1'']) example_world"
  using rate_limit_denial_first[where env = "example_env\<lparr>checkRateLimit := \<lambda>l i. Returns example_denial\<rparr>"
      and req = "example_request ''Puis-je divorcer ?'' [''q_used'' \<mapsto> ''1'']"
      and b = "example_body ''Puis-je divorcer ?''" and m = "''Puis-je divorcer ?''"
      and rl = example_denial and w = example_world and v = "Some ''7''"]
  by (simp add: example_defs cookie_defs js_eval choose_limiter_def choose_identifier_def)

section \<open>Recording is best effort\<close>



text \<open>
  Seen from the whole handler: however the recorder's calls fail, the response to
  a request is the same up to its \<^verbatim>\<open>sessionId\<close> field. A registered user whose
  every recorder call fails is answered all the same.
\<close>

lemma reply_without_sessionId:
  "without_sessionId (reply h reg q a fc sid) = reply h reg q a fc None"
  by (simp add: without_sessionId_def reply_def Let_def split: option.splits)

lemma answered_without_sessionId:
  "map_option without_sessionId (fst (answered env h reg q cu sid m a fc tok w))
     = Some (reply h reg q a fc None)"
  by (simp add: answered_def reply_without_sessionId split: option.splits prod.splits)

lemma resolve_answer_recorder_free:
  assumes "\<And>e. \<not> recording_call e \<Longrightarrow> se e = store_error env e"
  shows "map_option without_sessionId (fst (resolve_answer (env\<lparr>store_error := se\<rparr>) h reg q cu sid m w))
       = map_option without_sessionId (fst (resolve_answer env h reg q cu sid m w))"
  using assms[of "GetCachedAnswer m"] assms[of "SaveCachedAnswer m x" for x]
  unfolding resolve_answer_def Let_def
  by (simp add: answered_without_sessionId split: prod.splits option.splits outcome.splits)

lemma admission_recorder_free:
  assumes "\<And>e. \<not> recording_call e \<Longrightarrow> se e = store_error env e"
  shows "map_option without_sessionId (fst (admission (env\<lparr>store_error := se\<rparr>) reg ue q cu sid m w))
       = map_option without_sessionId (fst (admission env reg ue q cu sid m w))"
  unfolding admission_def Let_def
  by (simp add: resolve_answer_recorder_free[OF assms] choose_identifier_def split: outcome.splits)

lemma recording_failure_keeps_response:
  assumes "\<And>e. \<not> recording_call e \<Longrightarrow> se e = store_error env e"
  shows "map_option without_sessionId (fst (handler (env\<lparr>store_error := se\<rparr>) req w))
       = map_option without_sessionId (fst (handler env req w))"
  unfolding handler_def Let_def
  by (simp add: admission_recorder_free[OF assms] lookup_user_def split: option.splits prod.splits)

lemma recording_failure_example:
  "fst (handler (example_env\<lparr>store_error := recording_call\<rparr>)
          (example_request ''Puis-je divorcer ?''
             [''registered'' \<mapsto> ''1'', ''user_email'' \<mapsto> ''alice@example.org''])
          example_world)
     = Some \<lparr>status = 200,
             json = [(''success'', JBool True), (''response'', JStr ''Consultez un avocat.''),
                     (''qUsed'', JNum (Num 0)), (''remaining'', JStr illimite),
                     (''cached'', JBool False)],
             ratelimit_headers = Some example_decision, set_cookie = None\<rparr>"
  by (simp add: handler_eval reply_def example_defs cookie_defs js_eval)

section \<open>The answer cache\<close>



text \<open>
  Claim C6. A request served from the cache returns the stored answer text with
  \<^verbatim>\<open>cached: true\<close>; afterwards the cache is the one before with the hit counter
  of that entry incremented, so the stored answer text is unchanged and no other
  entry is touched.
\<close>

theorem cache_hit_only_counts:
  assumes "\<not> handleCorsPreflight env" "req_method req = ''POST''" "req_body req = Some b"
    "message b = Some m" "js_trim m \<noteq> []"
    and "checkRateLimit env (choose_limiter (cookie_registered req))
           (choose_identifier env (cookie_registered req) (cookie_userEmail req)) = Returns rl"
    and "rl_success rl"
    and "\<not> quota_exhausted (cookie_registered req) (cookie_qUsed req)"
    and "truthy (OPENAI_API_KEY env)"
    and "\<not> store_error env (GetCachedAnswer m)"
    and "cache w (normalize m) = Some c"
    and "handler env req w = (ro, w')"
  shows "(\<exists>r. ro = Some r \<and> status r = 200 \<and>
              map_of (json r) ''response'' = Some (JStr (answer c)) \<and>
              map_of (json r) ''cached'' = Some (JBool True)) \<and>
         cache w' = (cache w)(normalize m \<mapsto> c\<lparr>hitCount := hitCount c + 1\<rparr>)"
proof -
  obtain cu w0 where lu: "lookup_user env (cookie_registered req) (cookie_userEmail req) w = (cu, w0)"
    by (cases "lookup_user env (cookie_registered req) (cookie_userEmail req) w")
  then have c0: "cache w0 = cache w"
    by (auto simp: lookup_user_def called_def Let_def split: if_splits outcome.splits)
  let ?w1 = "called (GetCachedAnswer m) (called (CheckRateLimit (choose_limiter (cookie_registered req))
           (choose_identifier env (cookie_registered req) (cookie_userEmail req))) w0)"
  let ?c' = "c\<lparr>hitCount := hitCount c + 1\<rparr>"
  have hit: "getCachedAnswer ?w1 m = (Some ?c', ?w1\<lparr>cache := (cache w)(normalize m \<mapsto> ?c')\<rparr>)"
    using assms(11) c0 by (simp add: getCachedAnswer_def called_def Let_def)
  have "handler env req w =
      answered env (Some rl) (cookie_registered req) (cookie_qUsed req) cu (sessionId b) m
        (answer c) True 0 (?w1\<lparr>cache := (cache w)(normalize m \<mapsto> ?c')\<rparr>)"
    using assms(6-10) lu hit
    by (simp add: handler_entry[OF assms(1-5)] admission_def resolve_answer_def Let_def
        addRateLimitHeaders_def)
  with assms(12) have "answered env (Some rl) (cookie_registered req) (cookie_qUsed req) cu
        (sessionId b) m (answer c) True 0 (?w1\<lparr>cache := (cache w)(normalize m \<mapsto> ?c')\<rparr>) = (ro, w')"
    by simp
  from answered_reply[OF this] show ?thesis
    by (auto simp: reply_fields)
qed

theorem cache_hit_only_counts_witness:
  "\<not> handleCorsPreflight example_env \<and>
   req_method (example_request '' Puis-je DIVORCER ?'' Map.empty) = ''POST'' \<and>
   req_body (example_request '' Puis-je DIVORCER ?'' Map.empty) = Some (example_body '' Puis-je DIVORCER ?'') \<and>
   message (example_body '' Puis-je DIVORCER ?'') = Some '' Puis-je DIVORCER ?'' \<and>
   js_trim '' Puis-je DIVORCER ?'' \<noteq> [] \<and>
   checkRateLimit example_env
     (choose_limiter (cookie_registered (example_request '' Puis-je DIVORCER ?'' Map.empty)))
     (choose_identifier example_env
        (cookie_registered (example_request '' Puis-je DIVORCER ?'' Map.empty))
        (cookie_userEmail (example_request '' Puis-je DIVORCER ?'' Map.empty)))
     = Returns example_decision \<and>
   rl_success example_decision \<and>
   \<not> quota_exhausted (cookie_registered (example_request '' Puis-je DIVORCER ?'' Map.empty))
       (cookie_qUsed (example_request '' Puis-je DIVORCER ?'' Map.empty)) \<and>
   truthy (OPENAI_API_KEY example_env) \<and>
   \<not> store_error example_env (GetCachedAnswer '' Puis-je DIVORCER ?'') \<and>
   cache example_cached_world (normalize '' Puis-je DIVORCER ?'')
     = Some \<lparr>answer = ''Consultez un avocat.'', hitCount = 3\<rparr> \<and>
   fst (handler example_env (example_request '' Puis-je DIVORCER ?'' Map.empty) example_cached_world)
     = Some (reply (Some example_decision) False (Num 0) ''Consultez un avocat.'' True None) \<and>
   cache (snd (handler example_env (example_request '' Puis-je DIVORCER ?'' Map.empty) example_cached_world))
     = [''puis-je divorcer ?'' \<mapsto> \<lparr>answer = ''Consultez un avocat.'', hitCount = 4\<rparr>]"
proof -
  let ?req = "example_request '' Puis-je DIVORCER ?'' Map.empty"
  let ?c = "\<lparr>answer = ''Consultez un avocat.'', hitCount = 3\<rparr>"
  have h: "\<not> handleCorsPreflight example_env" "req_method ?req = ''POST''"
    "req_body ?req = Some (example_body '' Puis-je DIVORCER ?'')"
    "message (example_body '' Puis-je DIVORCER ?'') = Some '' Puis-je DIVORCER ?''"
    "js_trim '' Puis-je DIVORCER ?'' \<noteq> []"
    "checkRateLimit example_env (choose_limiter (cookie_registered ?req))
       (choose_identifier example_env (cookie_registered ?req) (cookie_userEmail ?req))
     = Returns example_decision"
    "rl_success example_decision"
    "\<not> quota_exhausted (cookie_registered ?req) (cookie_qUsed ?req)"
    "truthy (OPENAI_API_KEY example_env)"
    "\<not> store_error example_env (GetCachedAnswer '' Puis-je DIVORCER ?'')"
    "cache example_cached_world (normalize '' Puis-je DIVORCER ?'') = Some ?c"
    by (simp_all add: example_defs cookie_defs js_eval quota_exhausted_def normalize_def to_lower_def)
  have run: "handler example_env ?req example_cached_world =
      (fst (handler example_env ?req example_cached_world),
       snd (handler example_env ?req example_cached_world))"
    by simp
  have key: "normalize '' Puis-je DIVORCER ?'' = ''puis-je divorcer ?''"
    by (simp add: normalize_def to_lower_def js_eval)
  have r: "fst (handler example_env ?req example_cached_world)
     = Some (reply (Some example_decision) False (Num 0) ''Consultez un avocat.'' True None)"
    by (simp add: handler_eval example_defs cookie_defs js_eval)
  from cache_hit_only_counts[OF h run]
  have "cache (snd (handler example_env ?req example_cached_world))
     = [''puis-je divorcer ?'' \<mapsto> \<lparr>answer = ''Consultez un avocat.'', hitCount = 4\<rparr>]"
    by (simp add: key example_defs)
  with h r show ?thesis by blast
qed

section \<open>Provider failure\<close>

text \<open>
  Claim C7. On a cache miss, when the provider answers with a non-success
  status, the handler answers 500 with one fixed error text: the body does not
  depend on the provider's status, status text or body. The stores are as
  before (nothing is cached or recorded) and the trace ends with the provider
  call.
\<close>

theorem provider_failure_generic_error:
  assumes "\<not> handleCorsPreflight env" "req_method req = ''POST''" "req_body req = Some b"
    "message b = Some m" "js_trim m \<noteq> []"
    and "checkRateLimit env (choose_limiter (cookie_registered req))
           (choose_identifier env (cookie_registered req) (cookie_userEmail req)) = Returns rl"
    and "rl_success rl"
    and "\<not> quota_exhausted (cookie_registered req) (cookie_qUsed req)"
    and "truthy (OPENAI_API_KEY env)"
    and "\<not> store_error env (GetCachedAnswer m)"
    and "cache w (normalize m) = None"
    and "fetch env m = Returns openaiResponse" "\<not> ok openaiResponse"
  shows "handler env req w =
           (Some \<lparr>status = 500, json = [(''error'', JStr generation_message)],
                  ratelimit_headers = Some rl, set_cookie = None\<rparr>,
            w\<lparr>calls := calls w @
                 (if cookie_registered req \<and> truthy (cookie_userEmail req)
                  then [FindUserByEmail (or_else (cookie_userEmail req) [])] else []) @
                 [CheckRateLimit (choose_limiter (cookie_registered req))
                    (choose_identifier env (cookie_registered req) (cookie_userEmail req)),
                  GetCachedAnswer m, Fetch m]\<rparr>)"
  using assms(6-)
  by (simp add: handler_entry[OF assms(1-5)] lookup_user_def admission_def resolve_answer_def
      getCachedAnswer_def called_def Let_def addRateLimitHeaders_def respond_def split: outcome.splits)

theorem provider_failure_generic_error_witness:
  "\<not> handleCorsPreflight (example_env\<lparr>fetch := \<lambda>m. Returns example_outage\<rparr>) \<and>
   req_method (example_request ''Puis-je divorcer ?'' Map.empty) = ''POST'' \<and>
   req_body (example_request ''Puis-je divorcer ?'' Map.empty) = Some (example_body ''Puis-je divorcer ?'') \<and>
   message (example_body ''Puis-je divorcer ?'') = Some ''Puis-je divorcer ?'' \<and>
   js_trim ''Puis-je divorcer ?'' \<noteq> [] \<and>
   checkRateLimit (example_env\<lparr>fetch := \<lambda>m. Returns example_outage\<rparr>)
     (choose_limiter (cookie_registered (example_request ''Puis-je divorcer ?'' Map.empty)))
     (choose_identifier (example_env\<lparr>fetch := \<lambda>m. Returns example_outage\<rparr>)
        (cookie_registered (example_request ''Puis-je divorcer ?'' Map.empty))
        (cookie_userEmail (example_request ''Puis-je divorcer ?'' Map.empty)))
     = Returns example_decision \<and>
   rl_success example_decision \<and>
   \<not> quota_exhausted (cookie_registered (example_request ''Puis-je divorcer ?'' Map.empty))
       (cookie_qUsed (example_request ''Puis-je divorcer ?'' Map.empty)) \<and>
   truthy (OPENAI_API_KEY (example_env\<lparr>fetch := \<lambda>m. Returns example_outage\<rparr>)) \<and>
   \<not> store_error (example_env\<lparr>fetch := \<lambda>m. Returns example_outage\<rparr>)
       (GetCachedAnswer ''Puis-je divorcer ?'') \<and>
   cache example_world (normalize ''Puis-je divorcer ?'') = None \<and>
   fetch (example_env\<lparr>fetch := \<lambda>m. Returns example_outage\<rparr>) ''Puis-je divorcer ?''
     = Returns example_outage \<and>
   \<not> ok example_outage \<and>
   handler (example_env\<lparr>fetch := \<lambda>m. Returns example_outage\<rparr>)
     (example_request ''Puis-je divorcer ?'' Map.empty) example_world
     = (Some \<lparr>status = 500, json = [(''error'', JStr generation_message)],
              ratelimit_headers = Some example_decision, set_cookie = None\<rparr>,
        example_world\<lparr>calls := [CheckRateLimit chatRateLimiter ''203.0.113.9'',
                                 GetCachedAnswer ''Puis-je divorcer ?'', Fetch ''Puis-je divorcer ?'']\<rparr>)"
  using provider_failure_generic_error[where env = "example_env\<lparr>fetch := \<lambda>m. Returns example_outage\<rparr>"
      and req = "example_request ''Puis-je divorcer ?'' Map.empty"
      and b = "example_body ''Puis-je divorcer ?''" and m = "''Puis-je divorcer ?''"
      and rl = example_decision and w = example_world and openaiResponse = example_outage]
  by (simp add: example_defs cookie_defs js_eval choose_limiter_def choose_identifier_def
      quota_exhausted_def)

section \<open>Session titles\<close>

text \<open>
  Claim C8. When the caller supplies no session identifier, recording creates
  exactly one new session, owned by the caller. On the chat endpoint its title is
  the first 50 characters of the message followed by \<^verbatim>\<open>...\<close> when the message
  is longer than 50 characters, and the whole message otherwise. On the
  \<^verbatim>\<open>saveAnonymous\<close> action the title is built in the same way from the first
  message of role \<^verbatim>\<open>user\<close>, and is \<^verbatim>\<open>Conversation anonyme\<close> when there is none.
\<close>

theorem new_session_title:
  "((sid = None \<or> sid = Some 0) \<and> \<not> store_error env (CreateConversationSession (user_id u) m) \<and>
    saveConversation env u sid m a tok fc w = (caught, sid', w1)
    \<longrightarrow> sid' = Some (next_session_id w) \<and>
        session_heads w1 = session_heads w @
          [(next_session_id w, user_id u, if 50 < length m then take 50 m @ ''...'' else m)])
   \<and>
   (msgs \<noteq> [] \<and> \<not> store_error env (CreateConversationSession (user_id u) (anonymous_title msgs)) \<and>
    saveAnonymous env u msgs w = (res, w2)
    \<longrightarrow> session_heads w2 = session_heads w @
          [(next_session_id w, user_id u,
            case find (\<lambda>x. role x = ''user'') msgs of
              Some f \<Rightarrow> if 50 < length (content f) then take 50 (content f) @ ''...'' else content f
            | None \<Rightarrow> ''Conversation anonyme'')])"
proof (rule conjI; rule impI)
  assume h: "(sid = None \<or> sid = Some 0) \<and>
    \<not> store_error env (CreateConversationSession (user_id u) m) \<and>
    saveConversation env u sid m a tok fc w = (caught, sid', w1)"
  then have "sid' = Some (next_session_id w) \<and>
         session_heads w1 = session_heads w @ [(next_session_id w, user_id u, session_title m)]"
    using saveConversation_new_session[of sid env u m a tok fc w caught sid' w1] by blast
  then show "sid' = Some (next_session_id w) \<and>
        session_heads w1 = session_heads w @
          [(next_session_id w, user_id u, if 50 < length m then take 50 m @ ''...'' else m)]"
    by (simp add: session_title_cases)
next
  assume h: "msgs \<noteq> [] \<and>
    \<not> store_error env (CreateConversationSession (user_id u) (anonymous_title msgs)) \<and>
    saveAnonymous env u msgs w = (res, w2)"
  then have "session_heads w2 = session_heads w @ [(next_session_id w, user_id u, anonymous_title msgs)]"
    using saveAnonymous_new_session[of msgs env u w res w2] by blast
  then show "session_heads w2 = session_heads w @
          [(next_session_id w, user_id u,
            case find (\<lambda>x. role x = ''user'') msgs of
              Some f \<Rightarrow> if 50 < length (content f) then take 50 (content f) @ ''...'' else content f
            | None \<Rightarrow> ''Conversation anonyme'')]"
    by (simp add: anonymous_title_cases session_title_cases split: option.splits)
qed

theorem new_session_title_witness:
  "((None = (None :: int option) \<or> None = Some (0 :: int)) \<and>
    \<not> store_error example_env (CreateConversationSession (user_id \<lparr>user_id = 7\<rparr>) example_long_message) \<and>
    saveConversation example_env \<lparr>user_id = 7\<rparr> None example_long_message ''Consultez un avocat.'' 42
        False example_world
      = (False, Some 1,
         snd (snd (saveConversation example_env \<lparr>user_id = 7\<rparr> None example_long_message
                     ''Consultez un avocat.'' 42 False example_world)))) \<and>
   session_heads (snd (snd (saveConversation example_env \<lparr>user_id = 7\<rparr> None example_long_message
                     ''Consultez un avocat.'' 42 False example_world)))
     = [(1, 7, ''Quelles sont les etapes du divorce par consentemen...'')] \<and>
   (example_messages \<noteq> [] \<and>
    \<not> store_error example_env
        (CreateConversationSession (user_id \<lparr>user_id = 7\<rparr>) (anonymous_title example_messages)) \<and>
    saveAnonymous example_env \<lparr>user_id = 7\<rparr> example_messages example_world
      = (fst (saveAnonymous example_env \<lparr>user_id = 7\<rparr> example_messages example_world),
         snd (saveAnonymous example_env \<lparr>user_id = 7\<rparr> example_messages example_world))) \<and>
   session_heads (snd (saveAnonymous example_env \<lparr>user_id = 7\<rparr> example_messages example_world))
     = [(1, 7, ''Quelles sont les etapes du divorce par consentemen...'')]"
proof -
  let ?u = "\<lparr>user_id = 7\<rparr>"
  let ?X = "saveConversation example_env ?u None example_long_message ''Consultez un avocat.'' 42
        False example_world"
  let ?Y = "saveAnonymous example_env ?u example_messages example_world"
  have a1: "None = (None :: int option) \<or> None = Some (0 :: int)" by simp
  have a2: "\<not> store_error example_env (CreateConversationSession (user_id ?u) example_long_message)"
    by (simp add: example_defs)
  have "fst ?X = False \<and> fst (snd ?X) = Some 1"
    by (simp add: saveConversation_def call_createConversationSession_def
        call_addConversationMessage_def createConversationSession_def addConversationMessage_def
        called_def example_defs Let_def)
  then have a3: "?X = (False, Some 1, snd (snd ?X))"
    by (simp add: prod_eq_iff)
  have b1: "example_messages \<noteq> []" by (simp add: example_messages_def)
  have b2: "\<not> store_error example_env
        (CreateConversationSession (user_id ?u) (anonymous_title example_messages))"
    by (simp add: example_defs)
  have b3: "?Y = (fst ?Y, snd ?Y)" by simp
  have w0: "session_heads example_world = []" "next_session_id example_world = 1"
    by (simp_all add: session_heads_def example_defs)
  have len: "50 < length example_long_message"
    "take 50 example_long_message = ''Quelles sont les etapes du divorce par consentemen''"
    by (simp_all add: example_long_message_def)
  have f: "find (\<lambda>x. role x = ''user'') example_messages
      = Some \<lparr>role = ''user'', content = example_long_message\<rparr>"
    by (simp add: example_messages_def)
  note t = new_session_title[where sid = None and env = example_env and u = ?u
      and m = example_long_message and a = "''Consultez un avocat.''" and tok = 42 and fc = False
      and w = example_world and caught = False and sid' = "Some 1" and ?w1.0 = "snd (snd ?X)"
      and msgs = example_messages and res = "fst ?Y" and ?w2.0 = "snd ?Y"]
  from t a1 a2 a3 have c1: "session_heads (snd (snd ?X))
     = [(1, 7, ''Quelles sont les etapes du divorce par consentemen...'')]"
    by (simp add: w0 len)
  from t b1 b2 b3 have c2: "session_heads (snd ?Y)
     = [(1, 7, ''Quelles sont les etapes du divorce par consentemen...'')]"
    by (simp add: w0 len f)
  from a1 a2 a3 b1 b2 b3 c1 c2 show ?thesis by blast
qed

section \<open>Usage headers\<close>

text \<open>
  Claim C9, as stated, fails: a request whose message is blank is rejected with
  status 400 before the rate limiter is asked, and its response carries no usage
  headers.
\<close>

theorem empty_message_has_no_usage_headers:
  "handler example_env (example_request ''   '' Map.empty) example_world =
     (Some \<lparr>status = 400, json = [(''error'', JStr ''Message is required'')],
            ratelimit_headers = None, set_cookie = None\<rparr>, example_world)"
  by (simp add: handler_def example_defs respond_def js_eval)

text \<open>
  Claim C9, amended. A response of the chat handler carries the usage headers
  exactly when the request reached the rate limiter and got a decision, admitted
  or denied; the headers are then those of that decision. This covers the denial,
  the quota-exhausted response, the configuration and provider errors and the
  success. The responses produced before admission (wrong method, missing body,
  blank message) and the internal error when the rate-limit check itself throws
  carry none.
\<close>

theorem usage_headers_iff_decision:
  assumes "handler env req w = (Some r, w')"
  shows "ratelimit_headers r =
     (case req_body req of
        None \<Rightarrow> None
      | Some b \<Rightarrow>
          if req_method req = ''POST'' \<and> truthy (message b) \<and> js_trim (or_else (message b) []) \<noteq> []
          then (case checkRateLimit env (choose_limiter (cookie_registered req))
                       (choose_identifier env (cookie_registered req) (cookie_userEmail req)) of
                  Throws \<Rightarrow> None
                | Returns rl \<Rightarrow> Some rl)
          else None)"
  using assms unfolding handler_def Let_def
  by (auto simp: failure_fields reply_fields split: if_splits option.splits prod.splits
      dest!: admission_shape)


theorem usage_headers_iff_decision_witness:
  "handler example_env (example_request ''Puis-je divorcer ?'' [''q_used'' \<mapsto> ''2'']) example_world
     = (Some (respond (Some example_decision) 200
               [(''success'', JBool False), (''needSignup'', JBool True),
                (''message'', JStr signup_message), (''qUsed'', JNum (Num 2)),
                (''remaining'', JNum (Num 0))]),
        snd (handler example_env (example_request ''Puis-je divorcer ?'' [''q_used'' \<mapsto> ''2''])
               example_world)) \<and>
   ratelimit_headers (respond (Some example_decision) 200
               [(''success'', JBool False), (''needSignup'', JBool True),
                (''message'', JStr signup_message), (''qUsed'', JNum (Num 2)),
                (''remaining'', JNum (Num 0))]) = Some example_decision"
proof -
  let ?req = "example_request ''Puis-je divorcer ?'' [''q_used'' \<mapsto> ''2'']"
  let ?r = "respond (Some example_decision) 200
               [(''success'', JBool False), (''needSignup'', JBool True),
                (''message'', JStr signup_message), (''qUsed'', JNum (Num 2)),
                (''remaining'', JNum (Num 0))]"
  have "fst (handler example_env ?req example_world) = Some ?r"
    by (simp add: handler_eval example_defs cookie_defs js_eval)
  then have run: "handler example_env ?req example_world =
      (Some ?r, snd (handler example_env ?req example_world))"
    by (simp add: prod_eq_iff)
  from usage_headers_iff_decision[OF run]
  have "ratelimit_headers ?r = Some example_decision"
    by (simp add: example_defs cookie_defs js_eval choose_limiter_def choose_identifier_def)
  with run show ?thesis by blast
qed

section \<open>A registered cookie without a user\<close>




end
